theory Spec2Isabelle
  imports Main "HOL-Library.AList"
begin

section \<open>The document model\<close>

text \<open>
  A node of the document is a plain attribute map: a text node is
  \<^verbatim>\<open>{text: string, ...marks}\<close>, an element node is
  \<^verbatim>\<open>{type: string, children: [...], ...attributes}\<close> (see \<^verbatim>\<open>initialValue\<close>
  and the literals built by \<^verbatim>\<open>wrapLink\<close>, \<^verbatim>\<open>insertImage\<close>, \<^verbatim>\<open>toggleBlock\<close>).
  The attributes other than \<^verbatim>\<open>text\<close> and \<^verbatim>\<open>children\<close> are kept as an association
  list in the order in which the literal writes them.
\<close>

datatype jsval = JBool bool | JStr string

type_synonym props = "(string \<times> jsval) list"

datatype node =
    Text string props
  | Element props "node list"

fun node_props :: "node \<Rightarrow> props" where
  "node_props (Text s ms) = ms"
| "node_props (Element ps cs) = ps"

text \<open>\<^verbatim>\<open>n.type\<close>; \<open>None\<close> is JavaScript's \<^verbatim>\<open>undefined\<close>.\<close>

definition node_type :: "node \<Rightarrow> jsval option" where
  "node_type n = map_of (node_props n) ''type''"

text \<open>\<^verbatim>\<open>n.type === t\<close> for a string \<open>t\<close>.\<close>

definition type_is :: "string \<Rightarrow> node \<Rightarrow> bool" where
  "type_is t n = (node_type n = Some (JStr t))"

type_synonym path = "nat list"

record point =
  path :: path
  offset :: nat

record range =
  anchor :: point
  focus :: point

datatype edge = EdgeStart | EdgeEnd

datatype error = TypeError

text \<open>
  The payload handed to \<^verbatim>\<open>insertData\<close>: \<^verbatim>\<open>data.getData(format)\<close> is the empty
  string for a format the payload does not carry, \<^verbatim>\<open>data.files\<close> may be missing.
\<close>

record jsfile =
  file_type :: string
  file_content :: string

record data =
  items :: "(string \<times> string) list"
  files :: "jsfile list option"

definition getData :: "data \<Rightarrow> string \<Rightarrow> string" where
  "getData d fmt = (case map_of (items d) fmt of None \<Rightarrow> [] | Some s \<Rightarrow> s)"

section \<open>The editing engine and the libraries the example calls\<close>

text \<open>
  \<^verbatim>\<open>codex.js\<close> imports \<^verbatim>\<open>Editor\<close>, \<^verbatim>\<open>Transforms\<close>, \<^verbatim>\<open>Range\<close> and \<^verbatim>\<open>Point\<close> from the
  \<^verbatim>\<open>slate\<close> package. The functions of the example are modelled over an arbitrary
  engine: a record of the operations it calls, acting on an editor state \<open>'s\<close>
  (state passing for the mutable editor object). The engine stands for the transforms
  applied to the fully composed editor.
\<close>

record 's slate =
  selection :: "'s \<Rightarrow> range option"
  Range_isCollapsed :: "range \<Rightarrow> bool"
  Point_equals :: "point \<Rightarrow> point \<Rightarrow> bool"
  Editor_nodes :: "(node \<Rightarrow> bool) \<Rightarrow> 's \<Rightarrow> (node \<times> path) list"
  Editor_marks :: "'s \<Rightarrow> props option"
  Editor_addMark :: "string \<Rightarrow> jsval \<Rightarrow> 's \<Rightarrow> 's"
  Editor_removeMark :: "string \<Rightarrow> 's \<Rightarrow> 's"
  Editor_start :: "path \<Rightarrow> 's \<Rightarrow> point"
  Transforms_unwrapNodes :: "(node \<Rightarrow> bool) \<Rightarrow> bool \<Rightarrow> 's \<Rightarrow> 's"
  Transforms_setNodes :: "props \<Rightarrow> (node \<Rightarrow> bool) option \<Rightarrow> 's \<Rightarrow> 's"
  Transforms_wrapNodes :: "node \<Rightarrow> bool \<Rightarrow> 's \<Rightarrow> 's"
  Transforms_insertNodes :: "node \<Rightarrow> 's \<Rightarrow> 's"
  Transforms_collapse :: "edge \<Rightarrow> 's \<Rightarrow> 's"
  readAsDataURL :: "jsfile \<Rightarrow> 's \<Rightarrow> 's"

text \<open>
  The packages \<^verbatim>\<open>is-url\<close> and \<^verbatim>\<open>image-extensions\<close> and the platform's \<^verbatim>\<open>URL\<close>
  parser are parameters too; \<^verbatim>\<open>new URL(url)\<close> throws a \<^verbatim>\<open>TypeError\<close> on a string it
  cannot parse (\<open>None\<close>).
\<close>

record libs =
  isUrl :: "string \<Rightarrow> bool"
  imageExtensions :: "string list"
  URL_pathname :: "string \<Rightarrow> string option"

text \<open>
  The extension points of the editor object that the plugins override. A call of
  \<^verbatim>\<open>insertData\<close> can end in the exception of \<^verbatim>\<open>isImageUrl\<close>.
\<close>

record 's editor =
  isVoid :: "node \<Rightarrow> bool"
  isInline :: "node \<Rightarrow> bool"
  insertText :: "string \<Rightarrow> 's \<Rightarrow> 's"
  insertData :: "data \<Rightarrow> 's \<Rightarrow> error + 's"
  deleteBackward :: "string list \<Rightarrow> 's \<Rightarrow> 's"

text \<open>
  Modelled from the spec: \<^verbatim>\<open>Point.equals\<close> and \<^verbatim>\<open>Range.isCollapsed\<close> of the
  \<^verbatim>\<open>slate\<close> package, which is not among the sources, for the engines of the closed
  examples. A range is collapsed when its anchor equals its end; two points are equal when
  path and offset are.
\<close>

definition point_equal :: "point \<Rightarrow> point \<Rightarrow> bool" where
  "point_equal p q = (path p = path q \<and> offset p = offset q)"

definition range_collapsed :: "range \<Rightarrow> bool" where
  "range_collapsed r = point_equal (anchor r) (focus r)"

section \<open>The example: \<^verbatim>\<open>site/examples/codex.js\<close>\<close>

definition LIST_TYPES :: "string list" where
  "LIST_TYPES = [''numbered-list'', ''bulleted-list'']"

text \<open>\<^verbatim>\<open>LIST_TYPES.includes(n.type)\<close>\<close>

definition includes_type :: "string list \<Rightarrow> jsval option \<Rightarrow> bool" where
  "includes_type ts v = (case v of Some (JStr t) \<Rightarrow> t \<in> set ts | _ \<Rightarrow> False)"

definition isBlockActive :: "'s slate \<Rightarrow> 's \<Rightarrow> string \<Rightarrow> bool" where
  "isBlockActive sl ed format =
     (case Editor_nodes sl (type_is format) ed of [] \<Rightarrow> False | m # ms \<Rightarrow> True)"

definition toggleBlock :: "'s slate \<Rightarrow> string \<Rightarrow> 's \<Rightarrow> 's" where
  "toggleBlock sl format ed =
     (let isActive = isBlockActive sl ed format;
          isList = format \<in> set LIST_TYPES;
          ed1 = Transforms_unwrapNodes sl (\<lambda>n. includes_type LIST_TYPES (node_type n)) True ed;
          ed2 = Transforms_setNodes sl
                  [(''type'', JStr (if isActive then ''paragraph''
                                    else if isList then ''list-item'' else format))] None ed1
      in if \<not> isActive \<and> isList
         then Transforms_wrapNodes sl (Element [(''type'', JStr format)] []) False ed2
         else ed2)"



definition withMathBlocks :: "'s editor \<Rightarrow> 's editor" where
  "withMathBlocks e =
     e\<lparr>isVoid := \<lambda>element. if type_is ''math-block'' element then True else isVoid e element\<rparr>"

definition insertMathBlock :: "'s slate \<Rightarrow> 's \<Rightarrow> 's" where
  "insertMathBlock sl ed =
     Transforms_insertNodes sl (Element [(''type'', JStr ''math-block'')] [Text [] []]) ed"

definition isLinkActive :: "'s slate \<Rightarrow> 's \<Rightarrow> bool" where
  "isLinkActive sl ed =
     (case Editor_nodes sl (type_is ''link'') ed of [] \<Rightarrow> False | m # ms \<Rightarrow> True)"

definition unwrapLink :: "'s slate \<Rightarrow> 's \<Rightarrow> 's" where
  "unwrapLink sl ed = Transforms_unwrapNodes sl (type_is ''link'') False ed"

definition link_element :: "string \<Rightarrow> bool \<Rightarrow> node" where
  "link_element url isCollapsed =
     Element [(''type'', JStr ''link''), (''url'', JStr url)]
       (if isCollapsed then [Text url []] else [])"

definition wrapLink :: "'s slate \<Rightarrow> string \<Rightarrow> 's \<Rightarrow> 's" where
  "wrapLink sl url ed =
     (let ed1 = (if isLinkActive sl ed then unwrapLink sl ed else ed);
          isCollapsed = (case selection sl ed1 of None \<Rightarrow> False
                         | Some sel \<Rightarrow> Range_isCollapsed sl sel);
          link = link_element url isCollapsed
      in if isCollapsed then Transforms_insertNodes sl link ed1
         else Transforms_collapse sl EdgeEnd (Transforms_wrapNodes sl link True ed1))"

definition insertLink :: "'s slate \<Rightarrow> string \<Rightarrow> 's \<Rightarrow> 's" where
  "insertLink sl url ed = (if selection sl ed \<noteq> None then wrapLink sl url ed else ed)"

definition withLinks :: "'s slate \<Rightarrow> libs \<Rightarrow> 's editor \<Rightarrow> 's editor" where
  "withLinks sl lb e =
     e\<lparr>isInline := \<lambda>element. if type_is ''link'' element then True else isInline e element,
       insertText := \<lambda>txt ed.
         if txt \<noteq> [] \<and> isUrl lb txt then wrapLink sl txt ed else insertText e txt ed,
       insertData := \<lambda>d ed.
         (let txt = getData d ''text/plain''
          in if txt \<noteq> [] \<and> isUrl lb txt then Inr (wrapLink sl txt ed)
             else insertData e d ed)\<rparr>"

definition withChecklists :: "'s slate \<Rightarrow> 's editor \<Rightarrow> 's editor" where
  "withChecklists sl e =
     e\<lparr>deleteBackward := \<lambda>args ed.
         (case selection sl ed of
            None \<Rightarrow> deleteBackward e args ed
          | Some sel \<Rightarrow>
              if Range_isCollapsed sl sel then
                (case Editor_nodes sl (type_is ''check-list-item'') ed of
                   [] \<Rightarrow> deleteBackward e args ed
                 | (n, p) # ms \<Rightarrow>
                     if Point_equals sl (anchor sel) (Editor_start sl p ed)
                     then Transforms_setNodes sl [(''type'', JStr ''paragraph'')]
                            (Some (type_is ''check-list-item'')) ed
                     else deleteBackward e args ed)
              else deleteBackward e args ed)\<rparr>"

definition insertImage :: "'s slate \<Rightarrow> string \<Rightarrow> 's \<Rightarrow> 's" where
  "insertImage sl url ed =
     Transforms_insertNodes sl
       (Element [(''type'', JStr ''image''), (''url'', JStr url)] [Text [] []]) ed"

text \<open>\<^verbatim>\<open>s.split(c)\<close> for a one-character separator: never an empty array.\<close>

fun split_on :: "char \<Rightarrow> string \<Rightarrow> string list" where
  "split_on c [] = [[]]"
| "split_on c (x # xs) =
     (if x = c then [] # split_on c xs
      else (case split_on c xs of [] \<Rightarrow> [[x]] | w # ws \<Rightarrow> (x # w) # ws))"

definition isImageUrl :: "libs \<Rightarrow> string \<Rightarrow> error + bool" where
  "isImageUrl lb url =
     (if url = [] then Inr False
      else if \<not> isUrl lb url then Inr False
      else (case URL_pathname lb url of
              None \<Rightarrow> Inl TypeError
            | Some pathname \<Rightarrow>
                (case rev (split_on CHR ''.'' pathname) of
                   [] \<Rightarrow> Inr False
                 | ext # rest \<Rightarrow> Inr (ext \<in> set (imageExtensions lb)))))"

text \<open>\<^verbatim>\<open>const [mime] = file.type.split('/')\<close>, then \<^verbatim>\<open>mime === 'image'\<close>.\<close>

definition mime_is_image :: "jsfile \<Rightarrow> bool" where
  "mime_is_image f =
     (case split_on CHR ''/'' (file_type f) of [] \<Rightarrow> False | mime # rest \<Rightarrow> mime = ''image'')"

text \<open>
  The loop over the dropped files starts one read per image file; the \<^verbatim>\<open>load\<close>
  listener of a read runs later, as \<open>reader_load\<close>.
\<close>

fun read_files :: "'s slate \<Rightarrow> jsfile list \<Rightarrow> 's \<Rightarrow> 's" where
  "read_files sl [] ed = ed"
| "read_files sl (f # fs) ed =
     read_files sl fs (if mime_is_image f then readAsDataURL sl f ed else ed)"

definition reader_load :: "'s slate \<Rightarrow> string \<Rightarrow> 's \<Rightarrow> 's" where
  "reader_load sl result ed = insertImage sl result ed"

definition withImages :: "'s slate \<Rightarrow> libs \<Rightarrow> 's editor \<Rightarrow> 's editor" where
  "withImages sl lb e =
     e\<lparr>isVoid := \<lambda>element. if type_is ''image'' element then True else isVoid e element,
       insertData := \<lambda>d ed.
         (let txt = getData d ''text/plain''
          in case files d of
               Some (f # fs) \<Rightarrow> Inr (read_files sl (f # fs) ed)
             | _ \<Rightarrow>
               (case isImageUrl lb txt of
                  Inl err \<Rightarrow> Inl err
                | Inr True \<Rightarrow> Inr (insertImage sl txt ed)
                | Inr False \<Rightarrow> insertData e d ed))\<rparr>"

text \<open>
  The editor of \<^verbatim>\<open>CodexExample\<close>; \<open>base\<close> is
  \<^verbatim>\<open>withHistory(withReact(createEditor()))\<close>.
\<close>

definition codex_editor :: "'s slate \<Rightarrow> libs \<Rightarrow> 's editor \<Rightarrow> 's editor" where
  "codex_editor sl lb base =
     withMathBlocks (withLinks sl lb (withImages sl lb (withChecklists sl base)))"
section \<open>The classification chain, as the specification words it\<close>

text \<open>
  The classification of a node is the first non-default answer found walking the
  composition chain outer-to-inner; when no plugin of the chain claims the node's type the
  answer is the one of the innermost implementation. \<open>first_answer\<close> follows these words:
  the chain is the list of the types the plugins claim, outermost first.
\<close>

fun first_answer :: "string list \<Rightarrow> (node \<Rightarrow> bool) \<Rightarrow> node \<Rightarrow> bool" where
  "first_answer [] inner element = inner element"
| "first_answer (t # ts) inner element =
     (if type_is t element then True else first_answer ts inner element)"
section \<open>A recording engine\<close>

text \<open>
  An engine for the closed examples: its state holds the answers of the queries and the
  list of the mutating calls made so far, each call appended as it is made.
\<close>

datatype call =
    AddMark string jsval
  | RemoveMark string
  | UnwrapNodes "node \<Rightarrow> bool" bool
  | SetNodes props "(node \<Rightarrow> bool) option"
  | WrapNodes node bool
  | InsertNodes node
  | Collapse edge
  | ReadAsDataURL jsfile
  | DefaultInsertText string
  | DefaultInsertData data
  | DefaultDeleteBackward "string list"

record rec_state =
  seen_selection :: "range option"
  seen_nodes :: "(node \<times> path) list"
  seen_marks :: "props option"
  seen_start :: point
  calls :: "call list"

definition record_call :: "call \<Rightarrow> rec_state \<Rightarrow> rec_state" where
  "record_call c s = s\<lparr>calls := calls s @ [c]\<rparr>"

definition recorder :: "rec_state slate" where
  "recorder =
     \<lparr>selection = seen_selection,
      Range_isCollapsed = range_collapsed,
      Point_equals = point_equal,
      Editor_nodes = (\<lambda>m s. filter (\<lambda>(n, p). m n) (seen_nodes s)),
      Editor_marks = seen_marks,
      Editor_addMark = (\<lambda>k v. record_call (AddMark k v)),
      Editor_removeMark = (\<lambda>k. record_call (RemoveMark k)),
      Editor_start = (\<lambda>p s. seen_start s),
      Transforms_unwrapNodes = (\<lambda>m split. record_call (UnwrapNodes m split)),
      Transforms_setNodes = (\<lambda>ps m. record_call (SetNodes ps m)),
      Transforms_wrapNodes = (\<lambda>n split. record_call (WrapNodes n split)),
      Transforms_insertNodes = (\<lambda>n. record_call (InsertNodes n)),
      Transforms_collapse = (\<lambda>e. record_call (Collapse e)),
      readAsDataURL = (\<lambda>f. record_call (ReadAsDataURL f))\<rparr>"

definition recorder_base :: "rec_state editor" where
  "recorder_base =
     \<lparr>isVoid = (\<lambda>element. False),
      isInline = (\<lambda>element. False),
      insertText = (\<lambda>txt. record_call (DefaultInsertText txt)),
      insertData = (\<lambda>d s. Inr (record_call (DefaultInsertData d) s)),
      deleteBackward = (\<lambda>args. record_call (DefaultDeleteBackward args))\<rparr>"

text \<open>Sample values of the library parameters, for the closed examples only.\<close>

definition sample_isUrl :: "string \<Rightarrow> bool" where
  "sample_isUrl s = (take 8 s = ''https://'' \<and> 8 < length s \<and> CHR '' '' \<notin> set s)"

definition sample_pathname :: "string \<Rightarrow> string option" where
  "sample_pathname s =
     (if take 8 s = ''https://''
      then (let p = dropWhile (\<lambda>c. c \<noteq> CHR ''/'') (drop 8 s)
            in Some (if p = [] then ''/''
                     else takeWhile (\<lambda>c. c \<noteq> CHR ''?'' \<and> c \<noteq> CHR ''#'') p))
      else None)"

definition sample_libs :: libs where
  "sample_libs =
     \<lparr>isUrl = sample_isUrl,
      imageExtensions = [''gif'', ''jpeg'', ''jpg'', ''png''],
      URL_pathname = sample_pathname\<rparr>"

definition point_at :: "path \<Rightarrow> nat \<Rightarrow> point" where
  "point_at p k = \<lparr>path = p, offset = k\<rparr>"

definition caret :: "path \<Rightarrow> nat \<Rightarrow> range" where
  "caret p k = \<lparr>anchor = point_at p k, focus = point_at p k\<rparr>"

definition idle :: rec_state where
  "idle = \<lparr>seen_selection = None, seen_nodes = [], seen_marks = None,
           seen_start = point_at [] 0, calls = []\<rparr>"

definition inside_link :: rec_state where
  "inside_link =
     \<lparr>seen_selection = Some \<lparr>anchor = point_at [0, 1, 0] 1, focus = point_at [0, 1, 0] 3\<rparr>,
      seen_nodes =
        [(Element [(''type'', JStr ''paragraph'')]
            [Text ''see '' [],
             Element [(''type'', JStr ''link''), (''url'', JStr ''https://old.example'')]
               [Text ''here'' []],
             Text [] []], [0]),
         (Element [(''type'', JStr ''link''), (''url'', JStr ''https://old.example'')]
            [Text ''here'' []], [0, 1]),
         (Text ''here'' [], [0, 1, 0])],
      seen_marks = Some [],
      seen_start = point_at [0, 0] 0,
      calls = []\<rparr>"

definition plain_text :: "string \<Rightarrow> jsfile list option \<Rightarrow> data" where
  "plain_text txt fs = \<lparr>items = [(''text/plain'', txt)], files = fs\<rparr>"

definition pdf_file :: jsfile where
  "pdf_file = \<lparr>file_type = ''application/pdf'', file_content = ''%PDF''\<rparr>"

definition typing :: rec_state where
  "typing =
     \<lparr>seen_selection = Some (caret [0, 0] 0),
      seen_nodes = [(Element [(''type'', JStr ''paragraph'')] [Text [] []], [0]),
                    (Text [] [], [0, 0])],
      seen_marks = Some [],
      seen_start = point_at [0, 0] 0,
      calls = []\<rparr>"
section \<open>The condition of the checklists plugin\<close>

text \<open>
  The condition under which the checklists plugin keeps \<^verbatim>\<open>deleteBackward\<close> for itself:
  a collapsed selection whose anchor is the start point of the first check-list item that
  \<^verbatim>\<open>Editor.nodes\<close> finds at the selection.
\<close>

definition at_checklist_start :: "'s slate \<Rightarrow> 's \<Rightarrow> bool" where
  "at_checklist_start sl ed =
     (case selection sl ed of
        None \<Rightarrow> False
      | Some sel \<Rightarrow>
          Range_isCollapsed sl sel \<and>
          (case Editor_nodes sl (type_is ''check-list-item'') ed of
             [] \<Rightarrow> False
           | (n, p) # ms \<Rightarrow> Point_equals sl (anchor sel) (Editor_start sl p ed)))"


section \<open>What toggling a mark expects of the library\<close>



section \<open>The engine of the specification\<close>

text \<open>
  The \<^verbatim>\<open>slate\<close> package itself is not among the sources. For the properties that need
  the effect of its operations on a document, the operations are modelled from the words of
  the specification, over an editor state made of the document tree, the selection and the
  pending marks. Where the specification leaves a choice open (which of several nested
  matches a transform takes, where a wrapper goes), the model takes the one of the library:
  the innermost matches, and one wrapper below the lowest node that holds every match.

  The operations that insert, split or merge text (inserting nodes, wrapping in an inline
  element, setting a mark on a range) and the start of a file read are recorded in
  \<open>doc_calls\<close> and not performed. The library brings the document back to its normal form after every
  operation (an element has a child, holds either blocks or text and inline elements, and
  equal neighbouring text nodes are merged). That pass is not modelled: on a document in
  normal form whose list containers hold blocks, the operations as \<^verbatim>\<open>codex.js\<close> calls
  them for list types and check-list items leave nothing for it to do.
\<close>

record editor_state =
  doc_children :: "node list"
  doc_selection :: "range option"
  doc_marks :: "props option"
  doc_calls :: "call list"

text \<open>
  Modelled from the spec: the comparison of paths of the Range/Point model
  (\<^verbatim>\<open>Path.compare\<close>, \<^verbatim>\<open>Point.compare\<close>, \<^verbatim>\<open>Range.edges\<close> are missing). Points are ordered
  by path then offset, paths lexicographically by index; a path and its ancestor compare
  equal, so that a point inside a nested block is compared by its full path.
\<close>

fun path_compare :: "path \<Rightarrow> path \<Rightarrow> int" where
  "path_compare [] q = 0"
| "path_compare (a # p) [] = 0"
| "path_compare (a # p) (b # q) =
     (if a < b then - 1 else if b < a then 1 else path_compare p q)"

definition point_compare :: "point \<Rightarrow> point \<Rightarrow> int" where
  "point_compare a b =
     (let c = path_compare (path a) (path b)
      in if c = 0
         then (if offset a < offset b then - 1 else if offset b < offset a then 1 else 0)
         else c)"

definition range_start :: "range \<Rightarrow> point" where
  "range_start r = (if point_compare (anchor r) (focus r) \<le> 0 then anchor r else focus r)"

definition range_end :: "range \<Rightarrow> point" where
  "range_end r = (if point_compare (anchor r) (focus r) \<le> 0 then focus r else anchor r)"

text \<open>
  Modelled from the spec: the scope of an operation that is bounded by a range (the
  traversal of \<^verbatim>\<open>Editor.nodes\<close> is missing). A node is within the selection when its
  path lies neither before the path of the first point nor after the path of the last one;
  the ancestors of the selected text are within it.
\<close>

definition in_scope :: "range \<Rightarrow> path \<Rightarrow> bool" where
  "in_scope r q =
     (0 \<le> path_compare q (path (range_start r)) \<and> path_compare q (path (range_end r)) \<le> 0)"

text \<open>
  Modelled from the spec: the query of the document tree that returns the
  \<open>(node, path)\<close> pairs in document order (\<^verbatim>\<open>Node.nodes\<close> is missing).
\<close>

fun entries_node :: "path \<Rightarrow> node \<Rightarrow> (node \<times> path) list"
  and entries_list :: "path \<Rightarrow> nat \<Rightarrow> node list \<Rightarrow> (node \<times> path) list" where
  "entries_node q (Text s ms) = [(Text s ms, q)]"
| "entries_node q (Element ps ks) = (Element ps ks, q) # entries_list q 0 ks"
| "entries_list p i [] = []"
| "entries_list p i (c # cs) = entries_node (p @ [i]) c @ entries_list p (Suc i) cs"

fun is_text :: "node \<Rightarrow> bool" where
  "is_text (Text s ms) = True"
| "is_text (Element ps ks) = False"

fun is_element :: "node \<Rightarrow> bool" where
  "is_element (Text s ms) = False"
| "is_element (Element ps ks) = True"

fun node_children :: "node \<Rightarrow> node list" where
  "node_children (Text s ms) = []"
| "node_children (Element ps ks) = ks"

text \<open>The text of a document, in document order.\<close>

fun text_of_node :: "node \<Rightarrow> string"
  and text_of_list :: "node list \<Rightarrow> string" where
  "text_of_node (Text s ms) = s"
| "text_of_node (Element ps ks) = text_of_list ks"
| "text_of_list [] = []"
| "text_of_list (c # cs) = text_of_node c @ text_of_list cs"

text \<open>
  Modelled from the spec: the traversal behind \<^verbatim>\<open>Editor.nodes\<close>, missing from the
  sources. It does not enter a void element, whose content is not editable (in the data
  model a void element owns one empty text node and nothing else). Void-ness is the
  classification of the composed editor, a parameter of the engine.
\<close>

fun seen_node :: "(node \<Rightarrow> bool) \<Rightarrow> path \<Rightarrow> node \<Rightarrow> (node \<times> path) list"
  and seen_list :: "(node \<Rightarrow> bool) \<Rightarrow> path \<Rightarrow> nat \<Rightarrow> node list \<Rightarrow> (node \<times> path) list" where
  "seen_node vd q (Text s ms) = [(Text s ms, q)]"
| "seen_node vd q (Element ps ks) =
     (Element ps ks, q) # (if vd (Element ps ks) then [] else seen_list vd q 0 ks)"
| "seen_list vd p i [] = []"
| "seen_list vd p i (c # cs) = seen_node vd (p @ [i]) c @ seen_list vd p (Suc i) cs"

text \<open>
  Modelled from the spec: \<^verbatim>\<open>Editor.nodes(editor, {match})\<close>, missing from the sources:
  the nodes matching the predicate, in document order (an element before the nodes below
  it), bounded by the selection; none without a selection.
\<close>

definition doc_nodes ::
  "(node \<Rightarrow> bool) \<Rightarrow> (node \<Rightarrow> bool) \<Rightarrow> editor_state \<Rightarrow> (node \<times> path) list" where
  "doc_nodes vd m st =
     (case doc_selection st of
        None \<Rightarrow> []
      | Some r \<Rightarrow> filter (\<lambda>(n, q). in_scope r q \<and> m n) (seen_list vd [] 0 (doc_children st)))"

text \<open>
  Modelled from the spec: \<^verbatim>\<open>Editor.start(editor, path)\<close>, missing from the sources: the
  start point of the subtree at a path, which is offset 0 of its first descendant text.
  \<^verbatim>\<open>codex.js\<close> passes a path that \<^verbatim>\<open>Editor.nodes\<close> returned; for a path that names no
  node, or a subtree without text, the model answers offset 0 at the path it reached.
\<close>

fun first_leaf :: "path \<Rightarrow> node \<Rightarrow> point" where
  "first_leaf q (Text s ms) = \<lparr>path = q, offset = 0\<rparr>"
| "first_leaf q (Element ps []) = \<lparr>path = q, offset = 0\<rparr>"
| "first_leaf q (Element ps (k # ks)) = first_leaf (q @ [0]) k"

definition doc_start :: "path \<Rightarrow> editor_state \<Rightarrow> point" where
  "doc_start q st =
     (case map_of (map (\<lambda>(n, q'). (q', n)) (entries_list [] 0 (doc_children st))) q of
        None \<Rightarrow> \<lparr>path = q, offset = 0\<rparr>
      | Some n \<Rightarrow> first_leaf q n)"

text \<open>
  Modelled from the spec: \<^verbatim>\<open>Transforms.collapse(editor, {edge})\<close>, missing from the
  sources: the selection becomes the single point at the start or the end of the current
  selection.
\<close>

definition doc_collapse :: "edge \<Rightarrow> editor_state \<Rightarrow> editor_state" where
  "doc_collapse e st =
     st\<lparr>doc_selection :=
          map_option (\<lambda>r. case e of
                             EdgeStart \<Rightarrow> \<lparr>anchor = range_start r, focus = range_start r\<rparr>
                           | EdgeEnd \<Rightarrow> \<lparr>anchor = range_end r, focus = range_end r\<rparr>)
            (doc_selection st)\<rparr>"

text \<open>
  Modelled from the spec: the nodes a transform works on (the matching of
  \<^verbatim>\<open>Transforms.unwrapNodes\<close>, \<^verbatim>\<open>setNodes\<close> and \<^verbatim>\<open>wrapNodes\<close> is missing). A node is hit
  when it lies within the range and matches the predicate. Of the hit nodes a transform
  takes the lowest ones, those with no hit node below them (the library's default mode).
  Given no predicate, a transform matches the blocks, the elements that are not inline;
  inline-ness is the classification of the composed editor, a parameter of the engine.
  The text of a void element matches no predicate used here, so that entering void
  elements or not makes no difference.
\<close>

definition is_block :: "(node \<Rightarrow> bool) \<Rightarrow> node \<Rightarrow> bool" where
  "is_block inl n = (is_element n \<and> \<not> inl n)"

definition hit :: "(node \<Rightarrow> bool) \<Rightarrow> range \<Rightarrow> path \<Rightarrow> node \<Rightarrow> bool" where
  "hit m r q n = (in_scope r q \<and> m n)"

definition lowest :: "(node \<Rightarrow> bool) \<Rightarrow> range \<Rightarrow> path \<Rightarrow> node \<Rightarrow> bool" where
  "lowest m r q n =
     (hit m r q n \<and> \<not> list_ex (\<lambda>(n', q'). hit m r q' n') (entries_list q 0 (node_children n)))"

text \<open>
  Modelled from the spec: the range that \<^verbatim>\<open>Transforms.setNodes\<close> works on
  (\<^verbatim>\<open>Editor.unhangRange\<close> is missing). A range that starts at offset 0 and ends at
  offset 0 of a later text hangs into the block of its end without selecting anything of
  it: its end is moved back to the end of the text before it, the nearest one that is not
  empty or that lies before the block of the end. Any other range is taken as it is.
\<close>

definition proper_prefix :: "path \<Rightarrow> path \<Rightarrow> bool" where
  "proper_prefix p q = (length p < length q \<and> take (length p) q = p)"

definition block_above :: "(node \<Rightarrow> bool) \<Rightarrow> node list \<Rightarrow> path \<Rightarrow> path" where
  "block_above inl cs q =
     (case rev (filter (\<lambda>(n, q'). is_block inl n \<and> proper_prefix q' q) (entries_list [] 0 cs)) of
        [] \<Rightarrow> []
      | (n, q') # higher \<Rightarrow> q')"

definition unhang :: "(node \<Rightarrow> bool) \<Rightarrow> (node \<Rightarrow> bool) \<Rightarrow> node list \<Rightarrow> range \<Rightarrow> range" where
  "unhang inl vd cs r =
     (if offset (range_start r) \<noteq> 0 \<or> offset (range_end r) \<noteq> 0 \<or> range_collapsed r then r
      else \<lparr>anchor = range_start r,
            focus =
              (case filter (\<lambda>(n, q). text_of_node n \<noteq> []
                                     \<or> path_compare q (block_above inl cs (path (range_end r))) < 0)
                      (drop 1 (rev (filter (\<lambda>(n, q). is_text n
                                                      \<and> path_compare q (path (range_end r)) \<le> 0)
                                      (seen_list vd [] 0 cs)))) of
                 [] \<Rightarrow> range_end r
               | (n, q) # earlier \<Rightarrow> \<lparr>path = q, offset = length (text_of_node n)\<rparr>)\<rparr>)"

text \<open>
  Modelled from the spec: the merge of properties onto the nodes that a transform finds
  within its scope (the body of \<^verbatim>\<open>Transforms.setNodes\<close> is missing). \<open>change_list\<close>
  rewrites the attributes of the chosen nodes and keeps the shape of the tree and every
  text; \<open>assign_props\<close> is \<^verbatim>\<open>Object.assign\<close>, and the keys \<^verbatim>\<open>children\<close> and \<^verbatim>\<open>text\<close>
  are never set.
\<close>

fun change_node :: "(path \<Rightarrow> node \<Rightarrow> bool) \<Rightarrow> (props \<Rightarrow> props) \<Rightarrow> path \<Rightarrow> node \<Rightarrow> node"
  and change_list ::
    "(path \<Rightarrow> node \<Rightarrow> bool) \<Rightarrow> (props \<Rightarrow> props) \<Rightarrow> path \<Rightarrow> nat \<Rightarrow> node list \<Rightarrow> node list" where
  "change_node sel f q (Text s ms) = Text s (if sel q (Text s ms) then f ms else ms)"
| "change_node sel f q (Element ps ks) =
     Element (if sel q (Element ps ks) then f ps else ps) (change_list sel f q 0 ks)"
| "change_list sel f p i [] = []"
| "change_list sel f p i (c # cs) =
     change_node sel f (p @ [i]) c # change_list sel f p (Suc i) cs"

definition assign_props :: "props \<Rightarrow> props \<Rightarrow> props" where
  "assign_props old ps = foldl (\<lambda>acc kv. AList.update (fst kv) (snd kv) acc) old ps"

definition settable :: "props \<Rightarrow> props" where
  "settable ps = filter (\<lambda>kv. fst kv \<noteq> ''children'' \<and> fst kv \<noteq> ''text'') ps"

text \<open>
  Modelled from the spec: \<^verbatim>\<open>Transforms.setNodes(editor, props, {match})\<close>, missing from
  the sources: finds the lowest nodes matching the predicate within the selection, a
  hanging selection cut back first, and merges the given properties onto them, replacing a
  \<^verbatim>\<open>type\<close>; a no-op without a selection.
\<close>

definition doc_setNodes ::
  "(node \<Rightarrow> bool) \<Rightarrow> (node \<Rightarrow> bool) \<Rightarrow> props \<Rightarrow> (node \<Rightarrow> bool) option \<Rightarrow>
     editor_state \<Rightarrow> editor_state" where
  "doc_setNodes inl vd ps mo st =
     (case doc_selection st of
        None \<Rightarrow> st
      | Some r \<Rightarrow>
          st\<lparr>doc_children :=
               change_list
                 (lowest (case mo of None \<Rightarrow> is_block inl | Some m \<Rightarrow> m)
                    (unhang inl vd (doc_children st) r))
                 (\<lambda>old. assign_props old (settable ps)) [] 0 (doc_children st)\<rparr>)"

definition doc_record :: "call \<Rightarrow> editor_state \<Rightarrow> editor_state" where
  "doc_record c st = st\<lparr>doc_calls := doc_calls st @ [c]\<rparr>"

text \<open>
  Modelled from the spec: \<^verbatim>\<open>Editor.marks\<close>, \<^verbatim>\<open>Editor.addMark\<close> and
  \<^verbatim>\<open>Editor.removeMark\<close>, missing from the sources. The effective mark set is the pending
  marks when there are some, else the marks of the nearest text node of the selection (the
  first one, for a range); there is none without a selection. With a collapsed selection a
  mark is added to or removed from the pending marks and the document is not touched. With
  a range the mark is set on or removed from the text of the range, which splits text nodes
  at the edges of the range and merges equal neighbours afterwards: that is recorded and
  not performed.
\<close>

definition doc_marks_of :: "(node \<Rightarrow> bool) \<Rightarrow> editor_state \<Rightarrow> props option" where
  "doc_marks_of vd st =
     (case doc_selection st of
        None \<Rightarrow> None
      | Some r \<Rightarrow>
          (case doc_marks st of
             Some ms \<Rightarrow> Some ms
           | None \<Rightarrow>
               (case doc_nodes vd is_text st of
                  [] \<Rightarrow> Some []
                | (n, q) # rest \<Rightarrow> Some (node_props n))))"

definition effective_marks :: "(node \<Rightarrow> bool) \<Rightarrow> editor_state \<Rightarrow> props" where
  "effective_marks vd st = (case doc_marks_of vd st of None \<Rightarrow> [] | Some ms \<Rightarrow> ms)"

definition doc_addMark ::
  "(node \<Rightarrow> bool) \<Rightarrow> string \<Rightarrow> jsval \<Rightarrow> editor_state \<Rightarrow> editor_state" where
  "doc_addMark vd k v st =
     (case doc_selection st of
        None \<Rightarrow> st
      | Some r \<Rightarrow>
          if range_collapsed r
          then st\<lparr>doc_marks := Some (AList.update k v (effective_marks vd st))\<rparr>
          else doc_record (AddMark k v) st)"

definition doc_removeMark :: "(node \<Rightarrow> bool) \<Rightarrow> string \<Rightarrow> editor_state \<Rightarrow> editor_state" where
  "doc_removeMark vd k st =
     (case doc_selection st of
        None \<Rightarrow> st
      | Some r \<Rightarrow>
          if range_collapsed r
          then st\<lparr>doc_marks := Some (AList.delete k (effective_marks vd st))\<rparr>
          else doc_record (RemoveMark k) st)"

text \<open>
  Modelled from the spec: the re-normalisation of the selection after a transform that
  moves nodes (missing from the sources). Unwrapping and wrapping keep the text nodes and
  their order, so a point stays in its text node: its new path is the path of the text
  node with the same position in document order.
\<close>

definition leaf_paths :: "node list \<Rightarrow> path list" where
  "leaf_paths cs = map snd (filter (\<lambda>(n, q). is_text n) (entries_list [] 0 cs))"

definition remap_point :: "node list \<Rightarrow> node list \<Rightarrow> point \<Rightarrow> point" where
  "remap_point old new pt =
     (case map_of (zip (leaf_paths old) (leaf_paths new)) (path pt) of
        None \<Rightarrow> pt
      | Some q \<Rightarrow> pt\<lparr>path := q\<rparr>)"

definition restructure :: "node list \<Rightarrow> editor_state \<Rightarrow> editor_state" where
  "restructure new st =
     st\<lparr>doc_children := new,
        doc_selection :=
          map_option (\<lambda>r. \<lparr>anchor = remap_point (doc_children st) new (anchor r),
                             focus = remap_point (doc_children st) new (focus r)\<rparr>)
            (doc_selection st)\<rparr>"

text \<open>
  Modelled from the spec: \<^verbatim>\<open>Transforms.unwrapNodes(editor, {match, split})\<close>, missing
  from the sources: removes one level of wrapping element around the matched nodes,
  lifting their children to the parent. The elements removed are the lowest matching
  elements within the selection; an element that matches and holds another match of the
  selection stays. With \<^verbatim>\<open>split\<close> the element is split across the selection boundary, so
  that only the children within the selection are lifted and those before and after it
  stay wrapped, in an element with the same attributes; without it every child is lifted.
  An element none of whose children is to be lifted stays as it is. Unwrapping an element
  that holds text or inline elements, a link for one, leaves text to be merged with its
  new neighbours: that is recorded and not performed, and only blocks are lifted here.
\<close>

fun flagged ::
  "(path \<Rightarrow> node \<Rightarrow> bool) \<Rightarrow> path \<Rightarrow> nat \<Rightarrow> node list \<Rightarrow> (node \<times> bool) list" where
  "flagged f p i [] = []"
| "flagged f p i (c # cs) = (c, f (p @ [i]) c) # flagged f p (Suc i) cs"

definition keep_wrapped :: "props \<Rightarrow> (node \<times> bool) list \<Rightarrow> (node \<times> bool) list" where
  "keep_wrapped ps es = (if es = [] then [] else [(Element ps (map fst es), False)])"

definition lift_kids :: "bool \<Rightarrow> range \<Rightarrow> path \<Rightarrow> props \<Rightarrow> node list \<Rightarrow> node list" where
  "lift_kids split r q ps ks =
     (let es = flagged (\<lambda>q' c. if split then in_scope r q' else True) q 0 ks
      in if takeWhile snd (dropWhile (\<lambda>e. \<not> snd e) es) = [] then [Element ps ks]
         else map fst
                (keep_wrapped ps (takeWhile (\<lambda>e. \<not> snd e) es)
                 @ takeWhile snd (dropWhile (\<lambda>e. \<not> snd e) es)
                 @ keep_wrapped ps (dropWhile snd (dropWhile (\<lambda>e. \<not> snd e) es))))"

fun unwrap_node :: "(node \<Rightarrow> bool) \<Rightarrow> bool \<Rightarrow> range \<Rightarrow> path \<Rightarrow> node \<Rightarrow> node list"
  and unwrap_list ::
    "(node \<Rightarrow> bool) \<Rightarrow> bool \<Rightarrow> range \<Rightarrow> path \<Rightarrow> nat \<Rightarrow> node list \<Rightarrow> node list" where
  "unwrap_node m split r q (Text s ms) = [Text s ms]"
| "unwrap_node m split r q (Element ps ks) =
     (if lowest m r q (Element ps ks) then lift_kids split r q ps ks
      else [Element ps (unwrap_list m split r q 0 ks)])"
| "unwrap_list m split r p i [] = []"
| "unwrap_list m split r p i (c # cs) =
     unwrap_node m split r (p @ [i]) c @ unwrap_list m split r p (Suc i) cs"

definition lifts_text :: "(node \<Rightarrow> bool) \<Rightarrow> (node \<Rightarrow> bool) \<Rightarrow> range \<Rightarrow> node list \<Rightarrow> bool" where
  "lifts_text inl m r cs =
     list_ex (\<lambda>(n, q). lowest m r q n \<and> list_ex (\<lambda>k. \<not> is_block inl k) (node_children n))
       (entries_list [] 0 cs)"

definition doc_unwrapNodes ::
  "(node \<Rightarrow> bool) \<Rightarrow> (node \<Rightarrow> bool) \<Rightarrow> bool \<Rightarrow> editor_state \<Rightarrow> editor_state" where
  "doc_unwrapNodes inl m split st =
     (case doc_selection st of
        None \<Rightarrow> st
      | Some r \<Rightarrow>
          if lifts_text inl m r (doc_children st) then doc_record (UnwrapNodes m split) st
          else restructure (unwrap_list m split r [] 0 (doc_children st)) st)"

text \<open>
  Modelled from the spec: \<^verbatim>\<open>Transforms.wrapNodes(editor, element)\<close>, missing from the
  sources: wraps the nodes at the current selection, the lowest blocks within it, inside
  one new element built from the template. The new element goes below the lowest node
  that holds all of them, the editor itself at the top, around the children of that node
  from the one that holds the first of them to the one that holds the last. Wrapping in an
  inline template, or with \<^verbatim>\<open>split\<close>, where text would have to be split, is recorded only.
\<close>

definition holds :: "(path \<Rightarrow> node \<Rightarrow> bool) \<Rightarrow> path \<Rightarrow> node \<Rightarrow> bool" where
  "holds sel q n = list_ex (\<lambda>(n', q'). sel q' n') (entries_node q n)"

definition holders :: "(path \<Rightarrow> node \<Rightarrow> bool) \<Rightarrow> path \<Rightarrow> node list \<Rightarrow> nat list" where
  "holders sel q ks = filter (\<lambda>k. holds sel (q @ [k]) (ks ! k)) [0 ..< length ks]"

definition wrap_span :: "props \<Rightarrow> nat \<Rightarrow> nat \<Rightarrow> node list \<Rightarrow> node list" where
  "wrap_span tps i j ks =
     take i ks @ [Element tps (take (Suc j - i) (drop i ks))] @ drop (Suc j) ks"

fun wrap_node :: "(path \<Rightarrow> node \<Rightarrow> bool) \<Rightarrow> props \<Rightarrow> path \<Rightarrow> node \<Rightarrow> node"
  and wrap_each :: "(path \<Rightarrow> node \<Rightarrow> bool) \<Rightarrow> props \<Rightarrow> path \<Rightarrow> nat \<Rightarrow> node list \<Rightarrow> node list" where
  "wrap_node sel tps q (Text s ms) = Text s ms"
| "wrap_node sel tps q (Element ps ks) =
     Element ps
       (case holders sel q ks of
          [] \<Rightarrow> ks
        | k # others \<Rightarrow>
            if others = [] \<and> \<not> sel (q @ [k]) (ks ! k) then wrap_each sel tps q 0 ks
            else wrap_span tps k (last (k # others)) ks)"
| "wrap_each sel tps p i [] = []"
| "wrap_each sel tps p i (c # cs) = wrap_node sel tps (p @ [i]) c # wrap_each sel tps p (Suc i) cs"

definition doc_wrapNodes :: "(node \<Rightarrow> bool) \<Rightarrow> node \<Rightarrow> bool \<Rightarrow> editor_state \<Rightarrow> editor_state" where
  "doc_wrapNodes inl template split st =
     (case doc_selection st of
        None \<Rightarrow> st
      | Some r \<Rightarrow>
          if is_block inl template \<and> \<not> split
          then restructure
                 (node_children
                    (wrap_node (lowest (is_block inl) r) (node_props template) []
                       (Element [] (doc_children st))))
                 st
          else doc_record (WrapNodes template split) st)"

definition doc_engine :: "(node \<Rightarrow> bool) \<Rightarrow> (node \<Rightarrow> bool) \<Rightarrow> editor_state slate" where
  "doc_engine inl vd =
     \<lparr>selection = doc_selection,
      Range_isCollapsed = range_collapsed,
      Point_equals = point_equal,
      Editor_nodes = doc_nodes vd,
      Editor_marks = doc_marks_of vd,
      Editor_addMark = doc_addMark vd,
      Editor_removeMark = doc_removeMark vd,
      Editor_start = doc_start,
      Transforms_unwrapNodes = doc_unwrapNodes inl,
      Transforms_setNodes = doc_setNodes inl vd,
      Transforms_wrapNodes = doc_wrapNodes inl,
      Transforms_insertNodes = (\<lambda>n. doc_record (InsertNodes n)),
      Transforms_collapse = doc_collapse,
      readAsDataURL = (\<lambda>f. doc_record (ReadAsDataURL f))\<rparr>"

text \<open>
  The base editor over this state: it classifies nothing as void or inline, and its
  default methods are recorded.
\<close>

definition doc_base :: "editor_state editor" where
  "doc_base =
     \<lparr>isVoid = (\<lambda>element. False),
      isInline = (\<lambda>element. False),
      insertText = (\<lambda>txt. doc_record (DefaultInsertText txt)),
      insertData = (\<lambda>d st. Inr (doc_record (DefaultInsertData d) st)),
      deleteBackward = (\<lambda>args. doc_record (DefaultDeleteBackward args))\<rparr>"

text \<open>
  The inline and void classification of the composed editor over \<open>doc_base\<close>, and its
  engine.
\<close>

definition codex_inline :: "node \<Rightarrow> bool" where
  "codex_inline = type_is ''link''"

definition codex_void :: "node \<Rightarrow> bool" where
  "codex_void n = (type_is ''math-block'' n \<or> type_is ''image'' n)"

definition codex_engine :: "editor_state slate" where
  "codex_engine = doc_engine codex_inline codex_void"

text \<open>The property of C2: no list container has a list container as a direct child.\<close>

definition is_list_container :: "node \<Rightarrow> bool" where
  "is_list_container n = (is_element n \<and> includes_type LIST_TYPES (node_type n))"


section \<open>Text positions and the selection\<close>

text \<open>
  The notions in which the effect of \<^verbatim>\<open>toggleBlock\<close> on the nesting of lists is stated and
  proved. The text nodes of a document are numbered in document order; a node spans the
  numbers of the text nodes below it, and \<open>sp_list\<close> lists every node with its path and
  its span.
\<close>

fun nleaves :: "node \<Rightarrow> nat"
  and nleaves_list :: "node list \<Rightarrow> nat" where
  "nleaves (Text s ms) = 1"
| "nleaves (Element ps ks) = nleaves_list ks"
| "nleaves_list [] = 0"
| "nleaves_list (c # cs) = nleaves c + nleaves_list cs"







text \<open>The match of \<^verbatim>\<open>toggleBlock\<close>'s unwrap: \<^verbatim>\<open>n => LIST_TYPES.includes(n.type)\<close>.\<close>

abbreviation list_match :: "node \<Rightarrow> bool" where
  "list_match \<equiv> (\<lambda>n. includes_type LIST_TYPES (node_type n))"


text \<open>
  A document as the data model has it, as far as lists go: every element has a child, and
  the children of a list container are blocks, its items.
\<close>

fun filled_node :: "node \<Rightarrow> bool"
  and filled_list :: "node list \<Rightarrow> bool" where
  "filled_node (Text s ms) = True"
| "filled_node (Element ps ks) = (ks \<noteq> [] \<and> filled_list ks)"
| "filled_list [] = True"
| "filled_list (c # cs) = (filled_node c \<and> filled_list cs)"





section \<open>Sample documents\<close>

definition el :: "string \<Rightarrow> node list \<Rightarrow> node" where
  "el t ks = Element [(''type'', JStr t)] ks"

definition doc :: "node list \<Rightarrow> range \<Rightarrow> editor_state" where
  "doc cs r = \<lparr>doc_children = cs, doc_selection = Some r, doc_marks = None, doc_calls = []\<rparr>"


text \<open>Three paragraphs, the selection running from the first into the second.\<close>

definition three_paragraphs :: editor_state where
  "three_paragraphs =
     doc [el ''paragraph'' [Text ''a'' []], el ''paragraph'' [Text ''b'' []],
          el ''paragraph'' [Text ''c'' []]]
       \<lparr>anchor = point_at [0, 0] 1, focus = point_at [1, 0] 0\<rparr>"

text \<open>A numbered list of three items with the caret in the second.\<close>

definition in_list :: editor_state where
  "in_list =
     doc [el ''numbered-list''
            [el ''list-item'' [Text ''a'' []], el ''list-item'' [Text ''b'' []],
             el ''list-item'' [Text ''c'' []]]]
       (caret [0, 1, 0] 0)"

text \<open>An empty paragraph with the caret in it.\<close>

definition empty_paragraph :: editor_state where
  "empty_paragraph = doc [el ''paragraph'' [Text [] []]] (caret [0, 0] 0)"





section \<open>The fields of the engine\<close>

lemma doc_engine_transforms [simp]:
  "selection (doc_engine inl vd) = doc_selection"
  "Editor_nodes (doc_engine inl vd) = doc_nodes vd"
  "Editor_start (doc_engine inl vd) = doc_start"
  "Transforms_unwrapNodes (doc_engine inl vd) = doc_unwrapNodes inl"
  "Transforms_setNodes (doc_engine inl vd) = doc_setNodes inl vd"
  "Transforms_wrapNodes (doc_engine inl vd) = doc_wrapNodes inl"
  by (simp_all add: doc_engine_def)

lemma doc_engine_marks [simp]:
  "Editor_marks (doc_engine inl vd) = doc_marks_of vd"
  "Editor_addMark (doc_engine inl vd) = doc_addMark vd"
  "Editor_removeMark (doc_engine inl vd) = doc_removeMark vd"
  by (simp_all add: doc_engine_def)

lemma doc_engine_points [simp]:
  "Range_isCollapsed (doc_engine inl vd) = range_collapsed"
  "Point_equals (doc_engine inl vd) = point_equal"
  by (simp_all add: doc_engine_def)

section \<open>Void and inline classification\<close>

lemma isVoid_codex:
  "isVoid (codex_editor sl lb base) element =
     (if type_is ''math-block'' element then True
      else if type_is ''image'' element then True else isVoid base element)"
  by (simp add: codex_editor_def withMathBlocks_def withLinks_def withImages_def
      withChecklists_def)

lemma isInline_codex:
  "isInline (codex_editor sl lb base) element =
     (if type_is ''link'' element then True else isInline base element)"
  by (simp add: codex_editor_def withMathBlocks_def withLinks_def withImages_def
      withChecklists_def)

text \<open>
  C1. The composed \<^verbatim>\<open>isVoid\<close> is the first answer of the chain math-block, image and
  the composed \<^verbatim>\<open>isInline\<close> the first answer of the chain link, each falling back to the
  base editor; over a base that answers false everywhere, an element is void exactly when
  its type is \<^verbatim>\<open>'math-block'\<close> or \<^verbatim>\<open>'image'\<close> and inline exactly when its type is
  \<^verbatim>\<open>'link'\<close>.
\<close>

theorem codex_classification:
  "isVoid (codex_editor sl lb base) element
     = first_answer [''math-block'', ''image''] (isVoid base) element
   \<and> isInline (codex_editor sl lb base) element
     = first_answer [''link''] (isInline base) element
   \<and> ((\<forall>n. \<not> isVoid base n) \<and> (\<forall>n. \<not> isInline base n) \<longrightarrow>
        (isVoid (codex_editor sl lb base) element
           \<longleftrightarrow> node_type element = Some (JStr ''math-block'')
               \<or> node_type element = Some (JStr ''image''))
      \<and> (isInline (codex_editor sl lb base) element
           \<longleftrightarrow> node_type element = Some (JStr ''link'')))"
  by (simp add: isVoid_codex isInline_codex type_is_def)

theorem codex_classification_witness:
  "(\<forall>n. \<not> isVoid recorder_base n) \<and> (\<forall>n. \<not> isInline recorder_base n)
   \<and> isVoid (codex_editor recorder sample_libs recorder_base)
       (Element [(''type'', JStr ''image''), (''url'', JStr ''https://a.example/b.png'')]
          [Text [] []])
   \<and> \<not> isVoid (codex_editor recorder sample_libs recorder_base)
       (Element [(''type'', JStr ''link''), (''url'', JStr ''https://a.example'')] [])
   \<and> isInline (codex_editor recorder sample_libs recorder_base)
       (Element [(''type'', JStr ''link''), (''url'', JStr ''https://a.example'')] [])
   \<and> \<not> isInline (codex_editor recorder sample_libs recorder_base)
       (Element [(''type'', JStr ''paragraph'')] [Text ''a'' []])
   \<and> \<not> isVoid (codex_editor recorder sample_libs recorder_base) (Text ''a'' [])"
proof -
  have base: "(\<forall>n. \<not> isVoid recorder_base n) \<and> (\<forall>n. \<not> isInline recorder_base n)"
    by (simp add: recorder_base_def)
  have c: "(isVoid (codex_editor recorder sample_libs recorder_base) element
              \<longleftrightarrow> node_type element = Some (JStr ''math-block'')
                  \<or> node_type element = Some (JStr ''image''))
           \<and> (isInline (codex_editor recorder sample_libs recorder_base) element
              \<longleftrightarrow> node_type element = Some (JStr ''link''))" for element
    using base codex_classification [of recorder sample_libs recorder_base element]
    by blast
  show ?thesis
    using base
    by (simp add: c node_type_def)
qed
section \<open>Inserting a link\<close>

text \<open>
  C8. Without a selection \<^verbatim>\<open>insertLink\<close> returns the editor state it was given: no
  engine operation is applied, for every url.
\<close>

theorem insertLink_no_selection:
  "selection sl ed = None \<Longrightarrow> insertLink sl url ed = ed"
  by (simp add: insertLink_def)

theorem insertLink_no_selection_witness:
  "selection recorder idle = None
   \<and> insertLink recorder ''https://example.com'' idle = idle
   \<and> calls (insertLink recorder ''https://example.com'' idle) = []"
proof -
  have sel: "selection recorder idle = None"
    by (simp add: recorder_def idle_def)
  show ?thesis
    using sel insertLink_no_selection [OF sel, of "''https://example.com''"]
    by (simp add: idle_def)
qed

lemma wrapLink_unfold:
  "wrapLink sl url ed =
     (let ed1 = (if isLinkActive sl ed then Transforms_unwrapNodes sl (type_is ''link'') False ed
                 else ed)
      in case selection sl ed1 of
           None \<Rightarrow>
             Transforms_collapse sl EdgeEnd
               (Transforms_wrapNodes sl
                  (Element [(''type'', JStr ''link''), (''url'', JStr url)] []) True ed1)
         | Some sel1 \<Rightarrow>
             if Range_isCollapsed sl sel1
             then Transforms_insertNodes sl
                    (Element [(''type'', JStr ''link''), (''url'', JStr url)] [Text url []]) ed1
             else Transforms_collapse sl EdgeEnd
                    (Transforms_wrapNodes sl
                       (Element [(''type'', JStr ''link''), (''url'', JStr url)] []) True ed1))"
  by (simp add: wrapLink_def unwrapLink_def link_element_def Let_def split: option.splits)

text \<open>
  C5. With a selection, \<^verbatim>\<open>insertLink\<close> first unwraps the link elements of the selection
  when there is one (\<^verbatim>\<open>isLinkActive\<close>); then, on the selection the editor has at that
  moment, a collapsed selection gets a new link element inserted, whose only child is a
  text node holding the url, and any other selection is wrapped in a new, childless link
  element with \<^verbatim>\<open>split: true\<close> and then collapsed to its end edge.
\<close>

theorem insertLink_steps:
  "selection sl ed = Some sel \<Longrightarrow>
   insertLink sl url ed =
     (let ed1 = (if isLinkActive sl ed then Transforms_unwrapNodes sl (type_is ''link'') False ed
                 else ed)
      in case selection sl ed1 of
           None \<Rightarrow>
             Transforms_collapse sl EdgeEnd
               (Transforms_wrapNodes sl
                  (Element [(''type'', JStr ''link''), (''url'', JStr url)] []) True ed1)
         | Some sel1 \<Rightarrow>
             if Range_isCollapsed sl sel1
             then Transforms_insertNodes sl
                    (Element [(''type'', JStr ''link''), (''url'', JStr url)] [Text url []]) ed1
             else Transforms_collapse sl EdgeEnd
                    (Transforms_wrapNodes sl
                       (Element [(''type'', JStr ''link''), (''url'', JStr url)] []) True ed1))"
  by (simp add: insertLink_def wrapLink_unfold)

theorem insertLink_steps_witness:
  "selection recorder inside_link
     = Some \<lparr>anchor = point_at [0, 1, 0] 1, focus = point_at [0, 1, 0] 3\<rparr>
   \<and> calls (insertLink recorder ''https://new.example'' inside_link)
     = [UnwrapNodes (type_is ''link'') False,
        WrapNodes (Element [(''type'', JStr ''link''), (''url'', JStr ''https://new.example'')] [])
          True,
        Collapse EdgeEnd]"
proof -
  have sel: "selection recorder inside_link
      = Some \<lparr>anchor = point_at [0, 1, 0] 1, focus = point_at [0, 1, 0] 3\<rparr>"
    by (simp add: recorder_def inside_link_def)
  have active: "isLinkActive recorder inside_link"
    by (simp add: isLinkActive_def recorder_def inside_link_def type_is_def node_type_def)
  show ?thesis
    using sel active insertLink_steps [OF sel, of "''https://new.example''"]
    by (simp add: recorder_def inside_link_def record_call_def range_collapsed_def
        point_equal_def point_at_def)
qed
section \<open>Pasted and dropped data\<close>

lemma isImageUrl_not_url:
  "\<not> (txt \<noteq> [] \<and> isUrl lb txt) \<Longrightarrow> isImageUrl lb txt = Inr False"
  by (auto simp: isImageUrl_def)

lemma insertData_codex:
  "insertData (codex_editor sl lb base) d ed =
     (if getData d ''text/plain'' \<noteq> [] \<and> isUrl lb (getData d ''text/plain'')
      then Inr (wrapLink sl (getData d ''text/plain'') ed)
      else (case files d of
              Some (f # fs) \<Rightarrow> Inr (read_files sl (f # fs) ed)
            | _ \<Rightarrow> insertData base d ed))"
proof (cases "getData d ''text/plain'' \<noteq> [] \<and> isUrl lb (getData d ''text/plain'')")
  case True
  then show ?thesis
    by (simp add: codex_editor_def withMathBlocks_def withLinks_def)
next
  case False
  then have img: "isImageUrl lb (getData d ''text/plain'') = Inr False"
    by (rule isImageUrl_not_url)
  have "insertData (codex_editor sl lb base) d ed
      = insertData (withImages sl lb (withChecklists sl base)) d ed"
    using False by (auto simp: codex_editor_def withMathBlocks_def withLinks_def)
  also have "\<dots> = (case files d of
              Some (f # fs) \<Rightarrow> Inr (read_files sl (f # fs) ed)
            | _ \<Rightarrow> insertData base d ed)"
    using img by (simp add: withImages_def withChecklists_def split: option.splits list.splits)
  finally show ?thesis
    using False by auto
qed

text \<open>
  C7, as amended. When the plain text of the payload is not a URL and the payload carries
  no file (\<^verbatim>\<open>files\<close> missing or empty), the composed \<^verbatim>\<open>insertData\<close> is the captured
  default applied to the same payload, so it adds no error of its own. When the payload
  carries files, the images plugin keeps the payload: it starts the reads of the image
  files and the default is not called.
\<close>

theorem insertData_falls_through:
  "\<not> (getData d ''text/plain'' \<noteq> [] \<and> isUrl lb (getData d ''text/plain'')) \<Longrightarrow>
   (files d = None \<or> files d = Some [] \<longrightarrow>
      insertData (codex_editor sl lb base) d ed = insertData base d ed)
   \<and> (\<forall>f fs. files d = Some (f # fs) \<longrightarrow>
        insertData (codex_editor sl lb base) d ed = Inr (read_files sl (f # fs) ed))"
  by (auto simp: insertData_codex)

theorem insertData_falls_through_witness:
  "\<not> (getData (plain_text ''hello'' (Some [])) ''text/plain'' \<noteq> []
       \<and> isUrl sample_libs (getData (plain_text ''hello'' (Some [])) ''text/plain''))
   \<and> insertData (codex_editor recorder sample_libs recorder_base)
       (plain_text ''hello'' (Some [])) idle
     = Inr (idle\<lparr>calls := [DefaultInsertData (plain_text ''hello'' (Some []))]\<rparr>)
   \<and> insertData (codex_editor recorder sample_libs recorder_base)
       (plain_text ''hello'' (Some [pdf_file])) idle
     = Inr idle"
proof -
  have nourl: "\<not> (getData (plain_text ''hello'' fs) ''text/plain'' \<noteq> []
       \<and> isUrl sample_libs (getData (plain_text ''hello'' fs) ''text/plain''))" for fs
    by (simp add: getData_def plain_text_def sample_libs_def sample_isUrl_def)
  have img: "\<not> mime_is_image pdf_file"
    by (simp add: mime_is_image_def pdf_file_def)
  show ?thesis
    using nourl [of "Some []"]
      insertData_falls_through [OF nourl, of "Some []" recorder recorder_base idle]
      insertData_falls_through [OF nourl, of "Some [pdf_file]" recorder recorder_base idle]
      img
    by (simp add: plain_text_def recorder_base_def record_call_def idle_def)
qed

text \<open>
  The claim as first stated fails on a payload with an attached file that is not an image:
  the text is no URL, no attached file has an image media type and the text is no image
  URL, yet the composed \<^verbatim>\<open>insertData\<close> leaves the state as it is where the default
  insertion would have received the payload.
\<close>

theorem insertData_non_image_file_counterexample:
  "\<not> isUrl sample_libs (getData (plain_text ''hello'' (Some [pdf_file])) ''text/plain'')
   \<and> \<not> mime_is_image pdf_file
   \<and> isImageUrl sample_libs (getData (plain_text ''hello'' (Some [pdf_file])) ''text/plain'')
       = Inr False
   \<and> insertData (codex_editor recorder sample_libs recorder_base)
       (plain_text ''hello'' (Some [pdf_file])) idle = Inr idle
   \<and> insertData recorder_base (plain_text ''hello'' (Some [pdf_file])) idle
       = Inr (idle\<lparr>calls := [DefaultInsertData (plain_text ''hello'' (Some [pdf_file]))]\<rparr>)
   \<and> insertData (codex_editor recorder sample_libs recorder_base)
       (plain_text ''hello'' (Some [pdf_file])) idle
     \<noteq> insertData recorder_base (plain_text ''hello'' (Some [pdf_file])) idle"
proof -
  have nourl: "\<not> isUrl sample_libs (getData (plain_text ''hello'' (Some [pdf_file])) ''text/plain'')"
    by (simp add: getData_def plain_text_def sample_libs_def sample_isUrl_def)
  have img: "\<not> mime_is_image pdf_file"
    by (simp add: mime_is_image_def pdf_file_def)
  have noimg: "isImageUrl sample_libs
      (getData (plain_text ''hello'' (Some [pdf_file])) ''text/plain'') = Inr False"
    using nourl by (simp add: isImageUrl_not_url)
  have composed: "insertData (codex_editor recorder sample_libs recorder_base)
       (plain_text ''hello'' (Some [pdf_file])) idle = Inr idle"
    using nourl img by (simp add: insertData_codex plain_text_def)
  have dflt: "insertData recorder_base (plain_text ''hello'' (Some [pdf_file])) idle
       = Inr (idle\<lparr>calls := [DefaultInsertData (plain_text ''hello'' (Some [pdf_file]))]\<rparr>)"
    by (simp add: recorder_base_def record_call_def idle_def)
  have "idle \<noteq> idle\<lparr>calls := [DefaultInsertData (plain_text ''hello'' (Some [pdf_file]))]\<rparr>"
    by (simp add: idle_def)
  with nourl img noimg composed dflt show ?thesis
    by simp
qed

text \<open>
  C9. The links plugin is the outermost layer that overrides \<^verbatim>\<open>insertData\<close>. For a
  payload whose plain text is a URL the composed \<^verbatim>\<open>insertData\<close> is \<^verbatim>\<open>wrapLink\<close> on that
  text, which inserts or wraps a link element, whatever the layers inside the links plugin
  are, so also for the URL of an image. For every other payload \<^verbatim>\<open>isImageUrl\<close> answers
  false on the text: the image-URL branch of the images plugin is never taken in the
  composed editor.
\<close>

theorem insertData_url_becomes_link:
  "(getData d ''text/plain'' \<noteq> [] \<and> isUrl lb (getData d ''text/plain'') \<longrightarrow>
      insertData (codex_editor sl lb base) d ed
        = Inr (wrapLink sl (getData d ''text/plain'') ed)
      \<and> insertData (codex_editor sl lb base) d ed = insertData (withLinks sl lb inner) d ed
      \<and> (\<exists>ed1. wrapLink sl (getData d ''text/plain'') ed
                  = Transforms_insertNodes sl (link_element (getData d ''text/plain'') True) ed1
               \<or> wrapLink sl (getData d ''text/plain'') ed
                  = Transforms_collapse sl EdgeEnd
                      (Transforms_wrapNodes sl (link_element (getData d ''text/plain'') False)
                         True ed1)))
   \<and> (\<not> (getData d ''text/plain'' \<noteq> [] \<and> isUrl lb (getData d ''text/plain'')) \<longrightarrow>
        isImageUrl lb (getData d ''text/plain'') = Inr False)"
proof -
  have form: "\<exists>ed1. wrapLink sl url ed
                  = Transforms_insertNodes sl (link_element url True) ed1
               \<or> wrapLink sl url ed
                  = Transforms_collapse sl EdgeEnd
                      (Transforms_wrapNodes sl (link_element url False) True ed1)" for url
    by (auto simp: wrapLink_def Let_def)
  show ?thesis
    using form [of "getData d ''text/plain''"]
    by (simp add: insertData_codex isImageUrl_not_url withLinks_def)
qed

theorem insertData_url_becomes_link_witness:
  "getData (plain_text ''https://example.com/cat.png'' None) ''text/plain'' \<noteq> []
   \<and> isUrl sample_libs (getData (plain_text ''https://example.com/cat.png'' None) ''text/plain'')
   \<and> isImageUrl sample_libs ''https://example.com/cat.png'' = Inr True
   \<and> insertData (codex_editor recorder sample_libs recorder_base)
       (plain_text ''https://example.com/cat.png'' None) typing
     = Inr (typing\<lparr>calls :=
         [InsertNodes (Element [(''type'', JStr ''link''),
                                (''url'', JStr ''https://example.com/cat.png'')]
                         [Text ''https://example.com/cat.png'' []])]\<rparr>)"
proof -
  have plain: "getData (plain_text ''https://example.com/cat.png'' None) ''text/plain''
      = ''https://example.com/cat.png''"
    by (simp add: getData_def plain_text_def)
  have url: "isUrl sample_libs ''https://example.com/cat.png''"
    by (simp add: sample_libs_def sample_isUrl_def)
  have img: "isImageUrl sample_libs ''https://example.com/cat.png'' = Inr True"
    using url by (simp add: isImageUrl_def sample_libs_def sample_pathname_def)
  have link: "wrapLink recorder ''https://example.com/cat.png'' typing
      = typing\<lparr>calls :=
         [InsertNodes (Element [(''type'', JStr ''link''),
                                (''url'', JStr ''https://example.com/cat.png'')]
                         [Text ''https://example.com/cat.png'' []])]\<rparr>"
    by (simp add: wrapLink_def isLinkActive_def recorder_def typing_def type_is_def
        node_type_def caret_def range_collapsed_def point_equal_def link_element_def
        record_call_def)
  show ?thesis
    using insertData_url_becomes_link
      [of "plain_text ''https://example.com/cat.png'' None" sample_libs recorder
          recorder_base typing recorder_base]
      url img
    by (simp add: plain link)
qed
section \<open>Backspace in a check-list item\<close>

lemma deleteBackward_codex:
  "deleteBackward (codex_editor sl lb base) args ed =
     (if at_checklist_start sl ed
      then Transforms_setNodes sl [(''type'', JStr ''paragraph'')]
             (Some (type_is ''check-list-item'')) ed
      else deleteBackward base args ed)"
  by (simp add: codex_editor_def withMathBlocks_def withLinks_def withImages_def
      withChecklists_def at_checklist_start_def split: option.splits list.splits)








text \<open>
  On the engine of the specification the step keeps every character of the document: it
  only rewrites attributes.
\<close>

lemma change_keeps_text:
  "text_of_node (change_node sel f q n) = text_of_node n"
  "text_of_list (change_list sel f p i cs) = text_of_list cs"
  by (induction sel f q n and sel f p i cs rule: change_node_change_list.induct) simp_all

lemma deleteBackward_keeps_text:
  "at_checklist_start (doc_engine inl vd) st \<Longrightarrow>
   text_of_list (doc_children (deleteBackward (codex_editor (doc_engine inl vd) lb base) args st))
     = text_of_list (doc_children st)"
  by (simp add: deleteBackward_codex doc_setNodes_def change_keeps_text
      split: option.splits)
section \<open>Toggling a block type\<close>



text \<open>
  On the engine of the specification: a heading toggled with the caret in the second item
  of a numbered list leaves the item outside any list, between the two halves of the list.
\<close>

lemma toggleBlock_heading_in_list:
  "doc_children (toggleBlock codex_engine ''heading-one'' in_list)
     = [el ''numbered-list'' [el ''list-item'' [Text ''a'' []]],
        el ''heading-one'' [Text ''b'' []],
        el ''numbered-list'' [el ''list-item'' [Text ''c'' []]]]"
  by code_simp
section \<open>Toggling a mark twice\<close>






subsection \<open>A collapsed selection on the engine of the specification\<close>








section \<open>Toggling a list type\<close>


subsection \<open>Paths and spans\<close>

text \<open>
  The order of paths agrees with the numbering of the text nodes: a path lies within a
  range exactly when the span of its node meets the text nodes of the range.
\<close>

lemma path_compare_refl [simp]: "path_compare q q = 0"
  by (induction q) simp_all

lemma path_compare_append [simp]: "path_compare (p @ x) (p @ y) = path_compare x y"
  by (induction p) simp_all

lemma path_compare_prefix [simp]: "path_compare p (p @ y) = 0"
  using path_compare_append [of p "[]" y] by simp




subsection \<open>Text nodes and their paths\<close>
















subsection \<open>Splitting an element across the selection\<close>










lemma list_match_container:
  "is_list_container (Element ps ks') \<longleftrightarrow> list_match (Element ps ks)"
  by (simp add: is_list_container_def node_type_def)

subsection \<open>Unwrapping the lowest list containers\<close>



lemma filled_leaves:
  "filled_node n \<Longrightarrow> 0 < nleaves n"
  "filled_list cs \<Longrightarrow> cs \<noteq> [] \<Longrightarrow> 0 < nleaves_list cs"
  by (induction n and cs rule: filled_node_filled_list.induct) auto

lemma filled_kids: "filled_list cs \<Longrightarrow> c \<in> set cs \<Longrightarrow> filled_node c"
  by (induction cs) auto








subsection \<open>Each step keeps list containers apart\<close>












subsection \<open>Wrapping below the lowest common node\<close>
















subsection \<open>The toggle\<close>

lemma settable_type [simp]: "settable [(''type'', JStr t)] = [(''type'', JStr t)]"
  by (simp add: settable_def)






section \<open>Typing a URL\<close>

text \<open>
  C6. With a collapsed selection and no link at the selection, as in an empty paragraph,
  the composed \<^verbatim>\<open>insertText\<close> of the text \<^verbatim>\<open>https://example.com\<close>, a URL for \<^verbatim>\<open>is-url\<close>,
  hands one node to \<^verbatim>\<open>Transforms.insertNodes\<close>: a link element whose \<^verbatim>\<open>url\<close> is that
  string and whose only child is a text node holding the same string.
\<close>

theorem insertText_url_makes_link:
  "isUrl lb ''https://example.com'' \<Longrightarrow> selection sl ed = Some sel \<Longrightarrow>
   Range_isCollapsed sl sel \<Longrightarrow> Editor_nodes sl (type_is ''link'') ed = [] \<Longrightarrow>
   insertText (codex_editor sl lb base) ''https://example.com'' ed
     = Transforms_insertNodes sl
         (Element [(''type'', JStr ''link''), (''url'', JStr ''https://example.com'')]
            [Text ''https://example.com'' []]) ed"
  by (simp add: codex_editor_def withMathBlocks_def withLinks_def wrapLink_def
      isLinkActive_def link_element_def)

theorem insertText_url_makes_link_witness:
  "isUrl sample_libs ''https://example.com''
   \<and> selection codex_engine empty_paragraph = Some (caret [0, 0] 0)
   \<and> Range_isCollapsed codex_engine (caret [0, 0] 0)
   \<and> Editor_nodes codex_engine (type_is ''link'') empty_paragraph = []
   \<and> doc_calls (insertText (codex_editor codex_engine sample_libs doc_base)
                  ''https://example.com'' empty_paragraph)
     = [InsertNodes
          (Element [(''type'', JStr ''link''), (''url'', JStr ''https://example.com'')]
             [Text ''https://example.com'' []])]"
proof -
  have u: "isUrl sample_libs ''https://example.com''"
    by (simp add: sample_libs_def sample_isUrl_def)
  have s: "selection codex_engine empty_paragraph = Some (caret [0, 0] 0)"
    by (simp add: codex_engine_def empty_paragraph_def doc_def)
  have c: "Range_isCollapsed codex_engine (caret [0, 0] 0)"
    by (simp add: codex_engine_def doc_engine_def caret_def range_collapsed_def point_equal_def)
  have n: "Editor_nodes codex_engine (type_is ''link'') empty_paragraph = []"
    by (simp add: codex_engine_def empty_paragraph_def doc_def doc_nodes_def el_def
        type_is_def node_type_def)
  show ?thesis
    using u s c n insertText_url_makes_link [OF u s c n, of doc_base]
    by (simp add: codex_engine_def doc_engine_def doc_record_def empty_paragraph_def doc_def)
qed


end
